theory Spec2Isabelle
  imports Complex_Main
begin

section \<open>JavaScript values used by the attendance routes\<close>

text \<open>
  A JavaScript number is modelled as a real number or one of the three special values.
  The arithmetic of \<^verbatim>\<open>calculateDistance\<close> is carried out on the reals: the rounding
  of binary64 and the accuracy of \<^verbatim>\<open>Math.sin\<close>, \<^verbatim>\<open>Math.cos\<close>,
  \<^verbatim>\<open>Math.sqrt\<close> and \<^verbatim>\<open>Math.atan2\<close> are not part of the model. On the reals
  the haversine term \<open>a\<close> always lies between 0 and 1; in binary64 it can round
  above 1 for two points that are nearly antipodal, and the code then returns
  \<open>NaN\<close>. Nothing below reads the distance at such a pair of points: the examples
  use pairs of points for which the two computations agree.
  Comparisons and truthiness follow ECMAScript: every comparison with \<open>NaN\<close> is
  false, and \<open>0\<close> and \<open>NaN\<close> are the falsy numbers.
\<close>

datatype number = Fin real | PosInf | NegInf | NaN

fun num_le :: "number \<Rightarrow> number \<Rightarrow> bool" where
  "num_le NaN _ = False"
| "num_le _ NaN = False"
| "num_le (Fin x) (Fin y) = (x \<le> y)"
| "num_le NegInf _ = True"
| "num_le _ PosInf = True"
| "num_le PosInf _ = False"
| "num_le (Fin _) NegInf = False"

fun truthy_num :: "number \<Rightarrow> bool" where
  "truthy_num (Fin x) = (x \<noteq> 0)"
| "truthy_num NaN = False"
| "truthy_num _ = True"

text \<open>
  A string field of a request body is \<open>None\<close> when the body does not carry it.
  \<^verbatim>\<open>!v\<close> is true for a missing field and for the empty string.
\<close>

fun truthy :: "string option \<Rightarrow> bool" where
  "truthy None = False"
| "truthy (Some s) = (s \<noteq> [])"

text \<open>
  A coordinate of a location is whatever the JSON body or the stored document holds
  under \<^verbatim>\<open>latitude\<close> or \<^verbatim>\<open>longitude\<close>: a number, nothing at all
  (\<open>Undefined\<close>), or a value of another kind (a string, \<^verbatim>\<open>null\<close>, a boolean, an array,
  an object). For such a value \<open>Other n ok\<close> records what the routes can observe of it:
  \<open>n\<close> is the number that arithmetic makes of it, and \<open>ok\<close> tells whether the
  Firestore client accepts it as the value of a field. Only a number has the method
  \<^verbatim>\<open>toFixed\<close>; the client accepts every number and refuses \<^verbatim>\<open>undefined\<close>.
\<close>

datatype coord = Num number | Undefined | Other number bool

fun ToNumber :: "coord \<Rightarrow> number" where
  "ToNumber (Num n) = n"
| "ToNumber Undefined = NaN"
| "ToNumber (Other n ok) = n"

fun has_toFixed :: "coord \<Rightarrow> bool" where
  "has_toFixed (Num n) = True"
| "has_toFixed _ = False"

text \<open>A value written explicitly into a document, as \<^verbatim>\<open>add\<close> does with the two
  coordinates of a scan.\<close>

fun storable :: "coord \<Rightarrow> bool" where
  "storable (Num n) = True"
| "storable Undefined = False"
| "storable (Other n ok) = ok"

text \<open>A field of an object that came out of the JSON body: a field that is not there
  is no value at all, and is not written.\<close>

fun storable_field :: "coord \<Rightarrow> bool" where
  "storable_field (Num n) = True"
| "storable_field Undefined = True"
| "storable_field (Other n ok) = ok"

text \<open>
  The value stored under \<^verbatim>\<open>expiresAt\<close> is read only through
  \<^verbatim>\<open>new Date(session.expiresAt)\<close>, so it is modelled by what that constructor
  makes of it: \<open>ExpUndefined\<close> is a missing value, \<open>ExpDate t\<close> a value that the
  constructor turns into the time value \<open>t\<close> (milliseconds since the epoch), and
  \<open>ExpInvalid\<close> any other value for which it yields an Invalid Date.
\<close>

datatype expires = ExpUndefined | ExpDate int | ExpInvalid

fun Date :: "expires \<Rightarrow> int option" where
  "Date ExpUndefined = None"
| "Date (ExpDate t) = Some t"
| "Date ExpInvalid = None"

text \<open>\<^verbatim>\<open>now > expiryDate\<close>: the time value of an Invalid Date is \<open>NaN\<close>, and the
  comparison is then false.\<close>

fun date_gt :: "int \<Rightarrow> int option \<Rightarrow> bool" where
  "date_gt now None = False"
| "date_gt now (Some e) = (now > e)"

section \<open>Location service\<close>

definition atan2 :: "real \<Rightarrow> real \<Rightarrow> real" where
  "atan2 y x =
     (if 0 < x then arctan (y / x)
      else if x < 0 then (if 0 \<le> y then arctan (y / x) + pi else arctan (y / x) - pi)
      else if 0 < y then pi / 2
      else if y < 0 then - (pi / 2)
      else 0)"

definition haversine :: "real \<Rightarrow> real \<Rightarrow> real \<Rightarrow> real \<Rightarrow> number" where
  "haversine lat1 lon1 lat2 lon2 =
     (let R = 6371000;
          phi1 = (lat1 * pi) / 180;
          phi2 = (lat2 * pi) / 180;
          dphi = ((lat2 - lat1) * pi) / 180;
          dlambda = ((lon2 - lon1) * pi) / 180;
          a = sin (dphi / 2) * sin (dphi / 2) +
              cos phi1 * cos phi2 * sin (dlambda / 2) * sin (dlambda / 2)
      in if a < 0 \<or> 1 - a < 0 then NaN
         else Fin (of_int (round (R * (2 * atan2 (sqrt a) (sqrt (1 - a)))))))"

text \<open>A non-finite argument makes one of the sines or cosines \<open>NaN\<close>, and with it
  the result.\<close>

fun calculateDistance :: "number \<Rightarrow> number \<Rightarrow> number \<Rightarrow> number \<Rightarrow> number" where
  "calculateDistance (Fin lat1) (Fin lon1) (Fin lat2) (Fin lon2) = haversine lat1 lon1 lat2 lon2"
| "calculateDistance _ _ _ _ = NaN"

record location_check =
  valid :: bool
  distance :: number
  maxDistance :: number

definition verifyLocation ::
  "number \<Rightarrow> number \<Rightarrow> number \<Rightarrow> number \<Rightarrow> number \<Rightarrow> location_check" where
  "verifyLocation studentLat studentLon classLat classLon maxD =
     (let d = calculateDistance studentLat studentLon classLat classLon
      in \<lparr> valid = num_le d maxD, distance = d, maxDistance = maxD \<rparr>)"

section \<open>Stored documents and request bodies\<close>

text \<open>
  The documents have the fields the routes write, the request bodies the fields the
  routes read. Identifiers and names are strings that can name a document; the radius
  is a number when it is there. A field that a body or a document may lack is an
  option: \<open>None\<close> is \<^verbatim>\<open>undefined\<close>, and a present e-mail address stands for any
  value the client accepts. A location that is present stands for any truthy value:
  one that is not an object has no coordinates and no radius.
\<close>

record position =
  latitude :: coord
  longitude :: coord

record geo = position +
  radiusMeters :: "number option"

record session =
  sessionId :: string
  courseName :: string
  teacherId :: string
  teacherEmail :: "string option"
  location :: geo
  expiresAt :: expires
  createdAt :: int
  active :: bool

record attendance_record =
  a_sessionId :: string
  a_studentId :: string
  a_studentEmail :: "string option"
  a_courseName :: string
  markedAt :: int
  a_distance :: number
  a_location :: position

record session_body =
  b_sessionId :: "string option"
  b_courseName :: "string option"
  b_teacherId :: "string option"
  b_teacherEmail :: "string option"
  b_location :: "geo option"
  b_expiresAt :: expires

record mark_body =
  m_sessionId :: "string option"
  m_studentId :: "string option"
  m_studentEmail :: "string option"
  m_location :: "position option"

text \<open>
  The two Firestore collections. \<^verbatim>\<open>doc(id).set(data)\<close> writes the document under
  its id, replacing what was there; \<^verbatim>\<open>add(data)\<close> appends a document under a fresh
  id, so the attendance collection is a list. The handle is the one made by
  \<^verbatim>\<open>admin.firestore()\<close> with its default settings, so \<^verbatim>\<open>set\<close> and \<^verbatim>\<open>add\<close> throw
  on a document with a field whose value is \<^verbatim>\<open>undefined\<close> and write nothing; the
  routes catch the exception and answer with status 500. So they do with the
  exception of \<^verbatim>\<open>toFixed\<close> called on a value that is not a number. An outage of
  the store itself is not modelled.
\<close>

record store =
  sessions :: "string \<rightharpoonup> session"
  attendance :: "attendance_record list"

definition empty_store :: store where
  "empty_store = \<lparr> sessions = Map.empty, attendance = [] \<rparr>"

datatype session_response = SessionMissingFields | SessionCreated string | SessionError

datatype mark_response =
    MissingFields
  | InvalidSession
  | Expired
  | OutOfRange number number
  | AlreadyMarked
  | Admitted string number
  | ServerError

section \<open>POST /session\<close>

text \<open>The route rejects a body that lacks the session id, the course name, the teacher
  id or the location, and hands every other body to \<^verbatim>\<open>set\<close> under its session id.
  \<^verbatim>\<open>teacherEmail\<close> and \<^verbatim>\<open>expiresAt\<close> go into the document as they come out of the
  body, so \<^verbatim>\<open>set\<close> throws when one of them is missing. \<open>now\<close> is the reading of the
  clock that gives \<^verbatim>\<open>createdAt\<close>.\<close>

definition set_throws :: "session \<Rightarrow> bool" where
  "set_throws doc =
     (teacherEmail doc = None \<or> expiresAt doc = ExpUndefined \<or>
      \<not> storable_field (latitude (location doc)) \<or>
      \<not> storable_field (longitude (location doc)))"

definition createSession :: "int \<Rightarrow> store \<Rightarrow> session_body \<Rightarrow> store \<times> session_response" where
  "createSession now st body =
     (if \<not> truthy (b_sessionId body) \<or> \<not> truthy (b_courseName body) \<or>
         \<not> truthy (b_teacherId body) \<or> b_location body = None
      then (st, SessionMissingFields)
      else
        let sid = the (b_sessionId body);
            doc = \<lparr> sessionId = sid,
                    courseName = the (b_courseName body),
                    teacherId = the (b_teacherId body),
                    teacherEmail = b_teacherEmail body,
                    location = the (b_location body),
                    expiresAt = b_expiresAt body,
                    createdAt = now,
                    active = True \<rparr>
        in if set_throws doc then (st, SessionError)
           else (st\<lparr> sessions := (sessions st)(sid \<mapsto> doc) \<rparr>, SessionCreated sid))"

section \<open>POST /mark\<close>

text \<open>\<^verbatim>\<open>session.location.radiusMeters || 50\<close>: the stored radius when it is truthy,
  50 otherwise.\<close>

definition allowedRadius :: "session \<Rightarrow> number" where
  "allowedRadius s =
     (case radiusMeters (location s) of
        None \<Rightarrow> Fin 50
      | Some r \<Rightarrow> if truthy_num r then r else Fin 50)"

text \<open>The query for the records of a session and a student, and the document the route
  writes when there is none.\<close>

definition existingAttendance :: "store \<Rightarrow> string \<Rightarrow> string \<Rightarrow> attendance_record list" where
  "existingAttendance st sid uid =
     filter (\<lambda>r. a_sessionId r = sid \<and> a_studentId r = uid) (attendance st)"

text \<open>The call of \<^verbatim>\<open>verifyLocation\<close>. The arithmetic of \<^verbatim>\<open>calculateDistance\<close> turns
  each of its arguments into a number; the model does so where the route makes the
  call.\<close>

definition locationCheck :: "session \<Rightarrow> position \<Rightarrow> location_check" where
  "locationCheck s loc =
     verifyLocation (ToNumber (latitude loc)) (ToNumber (longitude loc))
       (ToNumber (latitude (location s))) (ToNumber (longitude (location s))) (allowedRadius s)"

text \<open>The answer to a scan that is out of range prints the four coordinates with
  \<^verbatim>\<open>toFixed(6)\<close>.\<close>

definition debug_throws :: "session \<Rightarrow> position \<Rightarrow> bool" where
  "debug_throws s loc =
     (\<not> has_toFixed (latitude loc) \<or> \<not> has_toFixed (longitude loc) \<or>
      \<not> has_toFixed (latitude (location s)) \<or> \<not> has_toFixed (longitude (location s)))"

definition attendanceData ::
  "int \<Rightarrow> mark_body \<Rightarrow> session \<Rightarrow> location_check \<Rightarrow> attendance_record" where
  "attendanceData now body s chk =
     \<lparr> a_sessionId = the (m_sessionId body),
       a_studentId = the (m_studentId body),
       a_studentEmail = m_studentEmail body,
       a_courseName = courseName s,
       markedAt = now,
       a_distance = distance chk,
       a_location = \<lparr> latitude = latitude (the (m_location body)),
                      longitude = longitude (the (m_location body)) \<rparr> \<rparr>"

definition add_throws :: "attendance_record \<Rightarrow> bool" where
  "add_throws r =
     (a_studentEmail r = None \<or> \<not> storable (latitude (a_location r)) \<or>
      \<not> storable (longitude (a_location r)))"

text \<open>The handler run from the request to the response with no other request in between:
  required fields, lookup of the session, expiry, location, duplicate, write.
  \<open>now\<close> is the reading of the clock.\<close>

definition markAttendance :: "int \<Rightarrow> store \<Rightarrow> mark_body \<Rightarrow> store \<times> mark_response" where
  "markAttendance now st body =
     (if \<not> truthy (m_sessionId body) \<or> \<not> truthy (m_studentId body) \<or> m_location body = None
      then (st, MissingFields)
      else
        case sessions st (the (m_sessionId body)) of
          None \<Rightarrow> (st, InvalidSession)
        | Some s \<Rightarrow>
            if date_gt now (Date (expiresAt s)) then (st, Expired)
            else
              let chk = locationCheck s (the (m_location body))
              in if \<not> valid chk
                 then (if debug_throws s (the (m_location body)) then (st, ServerError)
                       else (st, OutOfRange (distance chk) (maxDistance chk)))
                 else if existingAttendance st (the (m_sessionId body)) (the (m_studentId body)) \<noteq> []
                 then (st, AlreadyMarked)
                 else if add_throws (attendanceData now body s chk) then (st, ServerError)
                 else
                   (st\<lparr> attendance := attendance st @ [attendanceData now body s chk] \<rparr>,
                    Admitted (courseName s) (distance chk)))"

section \<open>Requests processed one after another\<close>

datatype request = CreateSession int session_body | Mark int mark_body

fun handle :: "store \<Rightarrow> request \<Rightarrow> store" where
  "handle st (CreateSession now body) = fst (createSession now st body)"
| "handle st (Mark now body) = fst (markAttendance now st body)"

fun process :: "store \<Rightarrow> request list \<Rightarrow> store" where
  "process st [] = st"
| "process st (r # rs) = process (handle st r) rs"

definition admitted_pairs :: "store \<Rightarrow> (string \<times> string) list" where
  "admitted_pairs st = map (\<lambda>r. (a_sessionId r, a_studentId r)) (attendance st)"

section \<open>Requests in flight at the same time\<close>

text \<open>
  The handler of \<^verbatim>\<open>/mark\<close> gives up control at each \<^verbatim>\<open>await\<close>: at the read of the
  session document, at the query for existing attendance and at the write. Between
  two of them it runs alone. A request in flight is therefore in one of four places,
  and a step takes it to the next one: the store answers the pending operation and
  the handler runs up to its next \<^verbatim>\<open>await\<close> or to its response. \<^verbatim>\<open>add\<close> throws
  on a document it refuses when it is called, before anything is written.
\<close>

datatype task =
    Received mark_body
  | AwaitQuery mark_body session location_check
  | AwaitAdd attendance_record
  | Responded mark_response

fun step :: "int \<Rightarrow> store \<Rightarrow> task \<Rightarrow> store \<times> task" where
  "step now st (Received body) =
     (if \<not> truthy (m_sessionId body) \<or> \<not> truthy (m_studentId body) \<or> m_location body = None
      then (st, Responded MissingFields)
      else
        case sessions st (the (m_sessionId body)) of
          None \<Rightarrow> (st, Responded InvalidSession)
        | Some s \<Rightarrow>
            if date_gt now (Date (expiresAt s)) then (st, Responded Expired)
            else
              let chk = locationCheck s (the (m_location body))
              in if \<not> valid chk
                 then (if debug_throws s (the (m_location body)) then (st, Responded ServerError)
                       else (st, Responded (OutOfRange (distance chk) (maxDistance chk))))
                 else (st, AwaitQuery body s chk))"
| "step now st (AwaitQuery body s chk) =
     (if existingAttendance st (the (m_sessionId body)) (the (m_studentId body)) \<noteq> []
      then (st, Responded AlreadyMarked)
      else if add_throws (attendanceData now body s chk) then (st, Responded ServerError)
      else (st, AwaitAdd (attendanceData now body s chk)))"
| "step now st (AwaitAdd r) =
     (st\<lparr> attendance := attendance st @ [r] \<rparr>,
      Responded (Admitted (a_courseName r) (a_distance r)))"
| "step now st (Responded r) = (st, Responded r)"

text \<open>A schedule names, step by step, the request that moves next.\<close>

fun run_schedule :: "int \<Rightarrow> nat list \<Rightarrow> store \<times> task list \<Rightarrow> store \<times> task list" where
  "run_schedule now [] cfg = cfg"
| "run_schedule now (i # sched) (st, ts) =
     (if i < length ts
      then let (st', t') = step now st (ts ! i)
           in run_schedule now sched (st', ts[i := t'])
      else run_schedule now sched (st, ts))"

section \<open>Example data\<close>

text \<open>A session for a classroom with a radius of 50 metres that expires at time 1000, the
  store that holds it, and a scan sent from the centre of its geofence.\<close>

definition classroom :: geo where
  "classroom =
     \<lparr> latitude = Num (Fin 18.516726), longitude = Num (Fin 73.856255),
       radiusMeters = Some (Fin 50) \<rparr>"

definition desk :: position where
  "desk = \<lparr> latitude = Num (Fin 18.516726), longitude = Num (Fin 73.856255) \<rparr>"

definition session_request :: session_body where
  "session_request =
     \<lparr> b_sessionId = Some ''SESSION_1'', b_courseName = Some ''Maths'',
       b_teacherId = Some ''teacher1'', b_teacherEmail = Some ''t@example.org'',
       b_location = Some classroom, b_expiresAt = ExpDate 1000 \<rparr>"

definition lecture :: session where
  "lecture =
     \<lparr> sessionId = ''SESSION_1'', courseName = ''Maths'', teacherId = ''teacher1'',
       teacherEmail = Some ''t@example.org'', location = classroom,
       expiresAt = ExpDate 1000, createdAt = 0, active = True \<rparr>"

definition open_store :: store where
  "open_store = \<lparr> sessions = [''SESSION_1'' \<mapsto> lecture], attendance = [] \<rparr>"

definition scan :: mark_body where
  "scan =
     \<lparr> m_sessionId = Some ''SESSION_1'', m_studentId = Some ''student1'',
       m_studentEmail = Some ''s@example.org'', m_location = Some desk \<rparr>"

definition scan_record :: attendance_record where
  "scan_record =
     \<lparr> a_sessionId = ''SESSION_1'', a_studentId = ''student1'',
       a_studentEmail = Some ''s@example.org'', a_courseName = ''Maths'', markedAt = 500,
       a_distance = Fin 0, a_location = desk \<rparr>"

text \<open>A room on the equator at the prime meridian, and a scan sent from the opposite
  side of the globe.\<close>

definition equator_room :: session where
  "equator_room =
     \<lparr> sessionId = ''SESSION_2'', courseName = ''Physics'', teacherId = ''teacher1'',
       teacherEmail = Some ''t@example.org'',
       location = \<lparr> latitude = Num (Fin 0), longitude = Num (Fin 0), radiusMeters = None \<rparr>,
       expiresAt = ExpDate 1000, createdAt = 0, active = True \<rparr>"

definition equator_store :: store where
  "equator_store = \<lparr> sessions = [''SESSION_2'' \<mapsto> equator_room], attendance = [] \<rparr>"

definition scan_from :: "number \<Rightarrow> number \<Rightarrow> mark_body" where
  "scan_from lat lon =
     \<lparr> m_sessionId = Some ''SESSION_2'', m_studentId = Some ''student1'',
       m_studentEmail = Some ''s@example.org'',
       m_location = Some \<lparr> latitude = Num lat, longitude = Num lon \<rparr> \<rparr>"

section \<open>What a scan gets when its pair is already in the ledger\<close>

definition reattempt_response :: "int \<Rightarrow> store \<Rightarrow> mark_body \<Rightarrow> mark_response" where
  "reattempt_response now st body =
     (if \<not> truthy (m_sessionId body) \<or> \<not> truthy (m_studentId body) \<or> m_location body = None
      then MissingFields
      else case sessions st (the (m_sessionId body)) of
             None \<Rightarrow> InvalidSession
           | Some s \<Rightarrow>
               if date_gt now (Date (expiresAt s)) then Expired
               else let chk = locationCheck s (the (m_location body))
                    in if \<not> valid chk
                       then (if debug_throws s (the (m_location body)) then ServerError
                             else OutOfRange (distance chk) (maxDistance chk))
                       else AlreadyMarked)"

section \<open>Properties\<close>

subsection \<open>Auxiliary facts\<close>

lemma haversine_same_point: "haversine a b a b = Fin 0"
  by (simp add: haversine_def atan2_def)

lemma haversine_antipode: "haversine 0 180 0 0 = Fin (of_int (round (6371000 * pi)))"
  by (simp add: haversine_def atan2_def Let_def)

lemma haversine_full_turn: "haversine 0 360 0 0 = Fin 0"
  by (simp add: haversine_def atan2_def Let_def)

lemma haversine_over_pole: "haversine 180 0 0 0 = Fin (of_int (round (6371000 * pi)))"
  by (simp add: haversine_def atan2_def Let_def)

lemma half_circumference: "50 < round (6371000 * pi)"
proof -
  have "6371000 * 2 \<le> 6371000 * pi" using pi_ge_two by simp
  then show ?thesis unfolding round_def by linarith
qed

lemma existing_iff:
  "existingAttendance st sid uid \<noteq> [] \<longleftrightarrow> (sid, uid) \<in> set (admitted_pairs st)"
  by (auto simp: existingAttendance_def admitted_pairs_def filter_empty_conv)

lemma markAttendance_store:
  "fst (markAttendance now st body) = st \<or>
   ((the (m_sessionId body), the (m_studentId body)) \<notin> set (admitted_pairs st) \<and>
    admitted_pairs (fst (markAttendance now st body)) =
      admitted_pairs st @ [(the (m_sessionId body), the (m_studentId body))])"
  by (simp add: markAttendance_def Let_def existing_iff attendanceData_def
      admitted_pairs_def[of "_\<lparr>attendance := _\<rparr>"] admitted_pairs_def[symmetric]
      split: option.splits)

lemma markAttendance_distinct:
  "distinct (admitted_pairs st) \<Longrightarrow> distinct (admitted_pairs (fst (markAttendance now st body)))"
  using markAttendance_store[of now st body] by auto

lemma createSession_pairs:
  "admitted_pairs (fst (createSession now st body)) = admitted_pairs st"
  by (simp add: createSession_def Let_def admitted_pairs_def)

lemma handle_distinct:
  "distinct (admitted_pairs st) \<Longrightarrow> distinct (admitted_pairs (handle st r))"
  by (cases r) (simp_all add: markAttendance_distinct createSession_pairs)

lemma process_distinct:
  "distinct (admitted_pairs st) \<Longrightarrow> distinct (admitted_pairs (process st rs))"
  by (induction rs arbitrary: st) (simp_all add: handle_distinct)

lemma markAttendance_again:
  "(the (m_sessionId body), the (m_studentId body)) \<in> set (admitted_pairs st) \<Longrightarrow>
   markAttendance now st body = (st, reattempt_response now st body)"
  by (simp add: markAttendance_def reattempt_response_def Let_def existing_iff
      split: option.splits)

lemma createSession_example: "createSession 0 empty_store session_request =
    (open_store, SessionCreated ''SESSION_1'')"
  by (simp add: createSession_def set_throws_def empty_store_def session_request_def
      open_store_def lecture_def classroom_def Let_def)

lemma lecture_check:
  "locationCheck lecture desk = \<lparr> valid = True, distance = Fin 0, maxDistance = Fin 50 \<rparr>"
  by (simp add: locationCheck_def verifyLocation_def allowedRadius_def lecture_def
      classroom_def desk_def haversine_same_point)

lemma scan_data:
  "attendanceData 500 scan lecture \<lparr> valid = True, distance = Fin 0, maxDistance = Fin 50 \<rparr> =
     scan_record"
  by (simp add: attendanceData_def scan_def lecture_def scan_record_def desk_def)

lemma scan_record_storable: "\<not> add_throws scan_record"
  by (simp add: add_throws_def scan_record_def desk_def)

lemma scan_example:
  "markAttendance 500 open_store scan =
     (open_store\<lparr> attendance := [scan_record] \<rparr>, Admitted ''Maths'' (Fin 0))"
proof -
  have "m_sessionId scan = Some ''SESSION_1''" "m_studentId scan = Some ''student1''"
    "m_location scan = Some desk"
    by (simp_all add: scan_def)
  moreover have "expiresAt lecture = ExpDate 1000" "courseName lecture = ''Maths''"
    by (simp_all add: lecture_def)
  ultimately show ?thesis
    by (simp add: markAttendance_def open_store_def lecture_check existingAttendance_def
        scan_data scan_record_storable)
qed

lemma attendanceData_answer:
  "a_courseName (attendanceData now body s chk) = courseName s"
  "a_distance (attendanceData now body s chk) = distance chk"
  by (simp_all add: attendanceData_def)

text \<open>One request alone, taken through its three steps, is the handler.\<close>

lemma step_markAttendance:
  "(case step now st (Received body) of (st1, t1) \<Rightarrow>
      case step now st1 t1 of (st2, t2) \<Rightarrow> step now st2 t2)
   = (fst (markAttendance now st body), Responded (snd (markAttendance now st body)))"
  by (simp add: markAttendance_def attendanceData_answer Let_def split: option.splits)

text \<open>Two scans of the same session by the same student, the second taken up when
  the first has been answered: one is admitted, the other is told it is already marked.\<close>

lemma sequential_scans:
  "run_schedule 500 [0, 0, 0, 1, 1, 1] (open_store, [Received scan, Received scan]) =
     (open_store\<lparr> attendance := [scan_record] \<rparr>,
      [Responded (Admitted ''Maths'' (Fin 0)), Responded AlreadyMarked])"
proof -
  have "m_sessionId scan = Some ''SESSION_1''" "m_studentId scan = Some ''student1''"
    "m_location scan = Some desk"
    by (simp_all add: scan_def)
  moreover have "expiresAt lecture = ExpDate 1000" "courseName lecture = ''Maths''"
    by (simp_all add: lecture_def)
  moreover have "a_sessionId scan_record = ''SESSION_1''" "a_studentId scan_record = ''student1''"
    "a_courseName scan_record = ''Maths''" "a_distance scan_record = Fin 0"
    by (simp_all add: scan_record_def)
  ultimately show ?thesis
    by (simp add: open_store_def lecture_check existingAttendance_def scan_data
        scan_record_storable)
qed

subsection \<open>The attendance ledger under requests processed one after another\<close>

text \<open>
  Claim C1, as amended. Whatever requests are processed one after another, starting
  from a ledger with at most one record for each pair of session and student, the
  ledger has at most one record for each pair afterwards. A scan whose pair is
  already in the ledger leaves the store as it is and is never admitted again; its
  response is the one of the first check it fails (missing fields, unknown session,
  expired session, out of range, or a server error when the answer for out of range
  cannot be printed), and it is \<open>AlreadyMarked\<close> when it passes them all.
\<close>

theorem single_admission:
  assumes "distinct (admitted_pairs st)"
  shows "distinct (admitted_pairs (process st rs)) \<and>
         (m_sessionId body = Some sid \<and> m_studentId body = Some uid \<and>
          (sid, uid) \<in> set (admitted_pairs (process st rs)) \<longrightarrow>
            markAttendance now (process st rs) body =
              (process st rs, reattempt_response now (process st rs) body))"
  using assms by (simp add: process_distinct markAttendance_again)

theorem single_admission_witness:
  "distinct (admitted_pairs empty_store) \<and>
   distinct (admitted_pairs (process empty_store [CreateSession 0 session_request, Mark 500 scan])) \<and>
   markAttendance 600 (process empty_store [CreateSession 0 session_request, Mark 500 scan]) scan =
     (open_store\<lparr> attendance := [scan_record] \<rparr>, AlreadyMarked)"
proof -
  have run: "process empty_store [CreateSession 0 session_request, Mark 500 scan] =
      open_store\<lparr> attendance := [scan_record] \<rparr>"
    by (simp add: createSession_example scan_example)
  have start: "distinct (admitted_pairs empty_store)"
    by (simp add: admitted_pairs_def empty_store_def)
  have again: "reattempt_response 600 (open_store\<lparr> attendance := [scan_record] \<rparr>) scan =
      AlreadyMarked"
    by (simp add: reattempt_response_def open_store_def scan_def lecture_check)
      (simp add: lecture_def)
  have pair: "(''SESSION_1'', ''student1'') \<in>
      set (admitted_pairs (open_store\<lparr> attendance := [scan_record] \<rparr>))"
    by (simp add: admitted_pairs_def scan_record_def)
  have ids: "m_sessionId scan = Some ''SESSION_1''" "m_studentId scan = Some ''student1''"
    by (simp_all add: scan_def)
  show ?thesis
    using single_admission [OF start,
        of "[CreateSession 0 session_request, Mark 500 scan]" scan "''SESSION_1''" "''student1''" 600]
      start pair again ids
    unfolding run by simp
qed

text \<open>
  Claim C1 as it was stated fails: a student admitted at time 500 who scans the same
  session again at time 2000, after the session's expiry at 1000, is answered
  \<open>Expired\<close>, not \<open>AlreadyMarked\<close>.
\<close>

theorem rescan_after_expiry:
  "snd (markAttendance 500 (process empty_store [CreateSession 0 session_request]) scan) =
     Admitted ''Maths'' (Fin 0) \<and>
   snd (markAttendance 2000
          (process empty_store [CreateSession 0 session_request, Mark 500 scan]) scan) = Expired"
  by (simp add: createSession_example scan_example)
    (simp add: markAttendance_def open_store_def scan_def lecture_def)

subsection \<open>Order of the checks\<close>

text \<open>
  Claim C4. A scan that carries its fields and names a stored session whose expiry
  lies before the current time is answered \<open>Expired\<close> and changes nothing, wherever
  the student is: in particular when the position is outside the geofence, since the
  expiry is checked before the location.
\<close>

theorem expiry_before_geofence:
  assumes "m_sessionId body = Some sid" and "sid \<noteq> []"
    and "truthy (m_studentId body)" and "m_location body = Some loc"
    and "sessions st sid = Some s"
    and "Date (expiresAt s) = Some e" and "e < now"
  shows "markAttendance now st body = (st, Expired)"
  using assms by (simp add: markAttendance_def)

theorem expiry_before_geofence_witness:
  "Date (expiresAt equator_room) = Some 1000 \<and> (1000::int) < 2000 \<and>
   \<not> valid (locationCheck equator_room \<lparr> latitude = Num (Fin 0), longitude = Num (Fin 180) \<rparr>) \<and>
   markAttendance 2000 equator_store (scan_from (Fin 0) (Fin 180)) = (equator_store, Expired)"
proof -
  have far: "\<not> valid (locationCheck equator_room \<lparr> latitude = Num (Fin 0), longitude = Num (Fin 180) \<rparr>)"
    using half_circumference
    by (simp add: locationCheck_def verifyLocation_def allowedRadius_def equator_room_def
        haversine_antipode)
  have "markAttendance 2000 equator_store (scan_from (Fin 0) (Fin 180)) = (equator_store, Expired)"
    by (rule expiry_before_geofence [where sid = "''SESSION_2''" and s = equator_room
          and e = 1000 and loc = "\<lparr> latitude = Num (Fin 0), longitude = Num (Fin 180) \<rparr>"])
      (simp_all add: scan_from_def equator_store_def equator_room_def)
  with far show ?thesis by (simp add: equator_room_def)
qed

subsection \<open>The active flag\<close>

text \<open>
  Claim C9. The response to a scan, and the ledger after it, do not depend on the
  \<open>active\<close> flag of the session it names: two stores that differ only in that flag
  of one session answer every scan alike. In particular a scan of a session whose
  flag is false, which has not expired, from within the radius, by a student not yet
  in the ledger, with an e-mail address and coordinates that can be written, is
  admitted.
\<close>

theorem active_flag_ignored:
  "snd (markAttendance now (st\<lparr> sessions := (sessions st)(k \<mapsto> s\<lparr> active := b \<rparr>) \<rparr>) body) =
     snd (markAttendance now (st\<lparr> sessions := (sessions st)(k \<mapsto> s) \<rparr>) body) \<and>
   attendance (fst (markAttendance now (st\<lparr> sessions := (sessions st)(k \<mapsto> s\<lparr> active := b \<rparr>) \<rparr>) body)) =
     attendance (fst (markAttendance now (st\<lparr> sessions := (sessions st)(k \<mapsto> s) \<rparr>) body)) \<and>
   (m_sessionId body = Some sid \<and> sid \<noteq> [] \<and> m_studentId body = Some uid \<and> uid \<noteq> [] \<and>
    m_location body = Some loc \<and> m_studentEmail body = Some mail \<and>
    storable (latitude loc) \<and> storable (longitude loc) \<and>
    sessions st sid = Some s \<and> \<not> active s \<and>
    \<not> date_gt now (Date (expiresAt s)) \<and> valid (locationCheck s loc) \<and>
    existingAttendance st sid uid = [] \<longrightarrow>
      snd (markAttendance now st body) = Admitted (courseName s) (distance (locationCheck s loc)))"
proof (intro conjI impI)
  have chk: "locationCheck (s\<lparr> active := b \<rparr>) = locationCheck s"
    by (simp add: locationCheck_def allowedRadius_def fun_eq_iff)
  have dbg: "debug_throws (s\<lparr> active := b \<rparr>) = debug_throws s"
    by (simp add: debug_throws_def fun_eq_iff)
  have rec: "attendanceData now body (s\<lparr> active := b \<rparr>) = attendanceData now body s"
    by (simp add: attendanceData_def fun_eq_iff)
  show "snd (markAttendance now (st\<lparr> sessions := (sessions st)(k \<mapsto> s\<lparr> active := b \<rparr>) \<rparr>) body) =
     snd (markAttendance now (st\<lparr> sessions := (sessions st)(k \<mapsto> s) \<rparr>) body)"
    by (cases "the (m_sessionId body) = k")
      (simp_all add: markAttendance_def Let_def existingAttendance_def chk dbg rec
        split: option.splits)
  show "attendance (fst (markAttendance now (st\<lparr> sessions := (sessions st)(k \<mapsto> s\<lparr> active := b \<rparr>) \<rparr>) body)) =
     attendance (fst (markAttendance now (st\<lparr> sessions := (sessions st)(k \<mapsto> s) \<rparr>) body))"
    by (cases "the (m_sessionId body) = k")
      (simp_all add: markAttendance_def Let_def existingAttendance_def chk dbg rec
        split: option.splits)
next
  assume "m_sessionId body = Some sid \<and> sid \<noteq> [] \<and> m_studentId body = Some uid \<and> uid \<noteq> [] \<and>
    m_location body = Some loc \<and> m_studentEmail body = Some mail \<and>
    storable (latitude loc) \<and> storable (longitude loc) \<and>
    sessions st sid = Some s \<and> \<not> active s \<and>
    \<not> date_gt now (Date (expiresAt s)) \<and> valid (locationCheck s loc) \<and>
    existingAttendance st sid uid = []"
  then show "snd (markAttendance now st body) =
      Admitted (courseName s) (distance (locationCheck s loc))"
    by (simp add: markAttendance_def attendanceData_def add_throws_def Let_def)
qed

theorem active_flag_ignored_witness:
  "snd (markAttendance 500 (open_store\<lparr> sessions := (sessions open_store)(''SESSION_1'' \<mapsto> lecture\<lparr> active := False \<rparr>) \<rparr>) scan) =
     snd (markAttendance 500 (open_store\<lparr> sessions := (sessions open_store)(''SESSION_1'' \<mapsto> lecture) \<rparr>) scan) \<and>
   \<not> active (lecture\<lparr> active := False \<rparr>) \<and>
   m_studentEmail scan = Some ''s@example.org'' \<and>
   snd (markAttendance 500 \<lparr> sessions = [''SESSION_1'' \<mapsto> lecture\<lparr> active := False \<rparr>], attendance = [] \<rparr> scan) =
     Admitted ''Maths'' (Fin 0)"
proof -
  have chk: "locationCheck (lecture\<lparr> active := False \<rparr>) desk =
      \<lparr> valid = True, distance = Fin 0, maxDistance = Fin 50 \<rparr>"
    using lecture_check by (simp add: locationCheck_def allowedRadius_def)
  have live: "\<not> date_gt 500 (Date (expiresAt (lecture\<lparr> active := False \<rparr>)))"
    by (simp add: lecture_def)
  have name: "courseName (lecture\<lparr> active := False \<rparr>) = ''Maths''"
    by (simp add: lecture_def)
  have coords: "storable (latitude desk)" "storable (longitude desk)"
    by (simp_all add: desk_def)
  show ?thesis
    using active_flag_ignored [where now = 500 and st = open_store and k = "''SESSION_1''"
          and s = lecture and b = False and body = scan]
      active_flag_ignored [where now = 500 and body = scan and sid = "''SESSION_1''"
          and st = "\<lparr> sessions = [''SESSION_1'' \<mapsto> lecture\<lparr> active := False \<rparr>], attendance = [] \<rparr>"
          and s = "lecture\<lparr> active := False \<rparr>" and uid = "''student1''" and loc = desk
          and mail = "''s@example.org''"]
      chk live name coords
    by (simp add: scan_def existingAttendance_def)
qed

subsection \<open>A session without an expiry\<close>

text \<open>
  Claim C10, as amended. \<open>expiresAt\<close> is not among the fields whose absence is
  answered as missing, but no session is created without it: the request is answered
  with a server error and nothing is stored. A session is created with an
  \<open>expiresAt\<close> that is not a date. For every stored session whose \<open>expiresAt\<close> is
  missing or is not a date, the comparison of the current time with the date made
  from it is false at every time, and no scan of that session is ever answered
  \<open>Expired\<close>.
\<close>

theorem session_without_expiry:
  "(b_sessionId body = Some sid \<and> sid \<noteq> [] \<and> truthy (b_courseName body) \<and>
    truthy (b_teacherId body) \<and> b_location body = Some g \<and> b_expiresAt body = ExpUndefined \<longrightarrow>
      createSession t st body = (st, SessionError)) \<and>
   (b_sessionId body = Some sid \<and> sid \<noteq> [] \<and> truthy (b_courseName body) \<and>
    truthy (b_teacherId body) \<and> b_teacherEmail body = Some mail \<and> b_location body = Some g \<and>
    storable_field (latitude g) \<and> storable_field (longitude g) \<and>
    b_expiresAt body = ExpInvalid \<longrightarrow>
      snd (createSession t st body) = SessionCreated sid \<and>
      map_option expiresAt (sessions (fst (createSession t st body)) sid) = Some ExpInvalid) \<and>
   (sessions st sid = Some s \<and> Date (expiresAt s) = None \<and> m_sessionId scanned = Some sid \<longrightarrow>
      \<not> date_gt now (Date (expiresAt s)) \<and>
      snd (markAttendance now st scanned) \<noteq> Expired)"
  by (simp add: createSession_def set_throws_def markAttendance_def Let_def)

theorem session_without_expiry_witness:
  "createSession 0 empty_store (session_request\<lparr> b_expiresAt := ExpUndefined \<rparr>) =
     (empty_store, SessionError) \<and>
   createSession 0 empty_store (session_request\<lparr> b_expiresAt := ExpInvalid \<rparr>) =
     (open_store\<lparr> sessions := [''SESSION_1'' \<mapsto> lecture\<lparr> expiresAt := ExpInvalid \<rparr>] \<rparr>,
      SessionCreated ''SESSION_1'') \<and>
   snd (markAttendance 999999999
          (open_store\<lparr> sessions := [''SESSION_1'' \<mapsto> lecture\<lparr> expiresAt := ExpInvalid \<rparr>] \<rparr>) scan) \<noteq>
     Expired"
  using session_without_expiry [where body = "session_request\<lparr> b_expiresAt := ExpUndefined \<rparr>"
      and sid = "''SESSION_1''" and g = classroom and t = 0 and st = empty_store]
    session_without_expiry [where body = "session_request\<lparr> b_expiresAt := ExpInvalid \<rparr>"
      and sid = "''SESSION_1''" and g = classroom and t = 0 and st = empty_store
      and mail = "''t@example.org''"]
    session_without_expiry [where sid = "''SESSION_1''" and scanned = scan and now = 999999999
      and st = "open_store\<lparr> sessions := [''SESSION_1'' \<mapsto> lecture\<lparr> expiresAt := ExpInvalid \<rparr>] \<rparr>"
      and s = "lecture\<lparr> expiresAt := ExpInvalid \<rparr>"]
  by (simp add: session_request_def classroom_def scan_def)
    (simp add: createSession_def set_throws_def session_request_def classroom_def
      open_store_def lecture_def empty_store_def Let_def)

text \<open>
  Claim C10 as it was stated fails: the request for \<open>SESSION_1\<close> sent without
  \<open>expiresAt\<close> is answered with a server error, and the store is as empty as before.
\<close>

theorem no_session_without_expiry:
  "createSession 0 empty_store (session_request\<lparr> b_expiresAt := ExpUndefined \<rparr>) =
     (empty_store, SessionError) \<and>
   sessions empty_store ''SESSION_1'' = None"
  by (simp add: createSession_def set_throws_def session_request_def empty_store_def Let_def)

subsection \<open>Creating a session under an id already in use\<close>

text \<open>
  Claim C3, as amended. A request to create a session that carries its id, course
  name, teacher, teacher's e-mail address, location and expiry succeeds whether or
  not a session is stored under that id: the new document is stored under the id,
  replacing the one that was there, the other sessions and the ledger stay as they
  are. There is no error for an id already in use.
\<close>

theorem createSession_replaces:
  assumes "b_sessionId body = Some sid" and "sid \<noteq> []"
    and "b_courseName body = Some c" and "c \<noteq> []"
    and "b_teacherId body = Some t" and "t \<noteq> []"
    and "b_teacherEmail body = Some mail"
    and "b_location body = Some g"
    and "storable_field (latitude g)" and "storable_field (longitude g)"
    and "b_expiresAt body \<noteq> ExpUndefined"
  shows "snd (createSession now st body) = SessionCreated sid \<and>
         sessions (fst (createSession now st body)) sid =
           Some \<lparr> sessionId = sid, courseName = c, teacherId = t,
                  teacherEmail = Some mail, location = g,
                  expiresAt = b_expiresAt body, createdAt = now, active = True \<rparr> \<and>
         (\<forall>k. k \<noteq> sid \<longrightarrow> sessions (fst (createSession now st body)) k = sessions st k) \<and>
         attendance (fst (createSession now st body)) = attendance st"
  using assms by (simp add: createSession_def set_throws_def Let_def)

theorem createSession_replaces_witness:
  "sessions open_store ''SESSION_1'' = Some lecture \<and>
   snd (createSession 5 open_store (session_request\<lparr> b_courseName := Some ''Physics'' \<rparr>)) =
     SessionCreated ''SESSION_1'' \<and>
   sessions (fst (createSession 5 open_store (session_request\<lparr> b_courseName := Some ''Physics'' \<rparr>)))
       ''SESSION_1'' =
     Some (lecture\<lparr> courseName := ''Physics'', createdAt := 5 \<rparr>)"
proof -
  have "snd (createSession 5 open_store (session_request\<lparr> b_courseName := Some ''Physics'' \<rparr>)) =
      SessionCreated ''SESSION_1'' \<and>
    sessions (fst (createSession 5 open_store (session_request\<lparr> b_courseName := Some ''Physics'' \<rparr>)))
        ''SESSION_1'' =
      Some \<lparr> sessionId = ''SESSION_1'', courseName = ''Physics'', teacherId = ''teacher1'',
             teacherEmail = Some ''t@example.org'', location = classroom,
             expiresAt = b_expiresAt (session_request\<lparr> b_courseName := Some ''Physics'' \<rparr>),
             createdAt = 5, active = True \<rparr> \<and>
    (\<forall>k. k \<noteq> ''SESSION_1'' \<longrightarrow>
       sessions (fst (createSession 5 open_store (session_request\<lparr> b_courseName := Some ''Physics'' \<rparr>))) k =
         sessions open_store k) \<and>
    attendance (fst (createSession 5 open_store (session_request\<lparr> b_courseName := Some ''Physics'' \<rparr>))) =
      attendance open_store"
    by (rule createSession_replaces) (simp_all add: session_request_def classroom_def)
  then show ?thesis
    by (simp add: session_request_def lecture_def open_store_def)
qed

text \<open>
  Claim C3 as it was stated fails: with \<open>SESSION_1\<close> stored for the course Maths, a
  second request under the same id for the course Physics is answered with success,
  and the stored document is now the one for Physics.
\<close>

theorem duplicate_id_accepted:
  "sessions open_store ''SESSION_1'' = Some lecture \<and>
   createSession 5 open_store (session_request\<lparr> b_courseName := Some ''Physics'' \<rparr>) =
     (open_store\<lparr> sessions := [''SESSION_1'' \<mapsto> lecture\<lparr> courseName := ''Physics'', createdAt := 5 \<rparr>] \<rparr>,
      SessionCreated ''SESSION_1'') \<and>
   lecture\<lparr> courseName := ''Physics'', createdAt := 5 \<rparr> \<noteq> lecture"
  by (simp add: createSession_def set_throws_def session_request_def open_store_def lecture_def
      classroom_def Let_def)

subsection \<open>The radius used by the geofence check\<close>

text \<open>
  Claim C5, as amended. For a session whose \<open>radiusMeters\<close> is missing, zero or
  \<open>NaN\<close>, the geofence check is made with a radius of 50 metres. A negative
  \<open>radiusMeters\<close> is not replaced: the check is made with the negative radius itself.
\<close>

theorem default_radius:
  "(radiusMeters (location s) = None \<or> radiusMeters (location s) = Some (Fin 0) \<or>
    radiusMeters (location s) = Some NaN \<longrightarrow>
      allowedRadius s = Fin 50 \<and> maxDistance (locationCheck s loc) = Fin 50) \<and>
   (radiusMeters (location s) = Some (Fin r) \<and> r < 0 \<longrightarrow>
      allowedRadius s = Fin r \<and> maxDistance (locationCheck s loc) = Fin r)"
  by (auto simp: allowedRadius_def locationCheck_def verifyLocation_def Let_def)

theorem default_radius_witness:
  "radiusMeters (location equator_room) = None \<and>
   maxDistance (locationCheck equator_room desk) = Fin 50 \<and>
   radiusMeters (location (lecture\<lparr> location := classroom\<lparr> radiusMeters := Some (Fin (- 10)) \<rparr> \<rparr>)) =
     Some (Fin (- 10)) \<and>
   maxDistance (locationCheck (lecture\<lparr> location := classroom\<lparr> radiusMeters := Some (Fin (- 10)) \<rparr> \<rparr>) desk) =
     Fin (- 10)"
  using default_radius [where s = equator_room and loc = desk]
    default_radius [where s = "lecture\<lparr> location := classroom\<lparr> radiusMeters := Some (Fin (- 10)) \<rparr> \<rparr>"
      and r = "- 10" and loc = desk]
  by (simp add: equator_room_def)

text \<open>
  Claim C5 as it was stated fails for a negative radius: with \<open>radiusMeters = -10\<close> the
  radius used is \<open>-10\<close>, not 50, and a student standing at the centre of the geofence
  is rejected as out of range.
\<close>

theorem negative_radius_used:
  "allowedRadius (lecture\<lparr> location := classroom\<lparr> radiusMeters := Some (Fin (- 10)) \<rparr> \<rparr>) = Fin (- 10) \<and>
   markAttendance 500
     \<lparr> sessions = [''SESSION_1'' \<mapsto> lecture\<lparr> location := classroom\<lparr> radiusMeters := Some (Fin (- 10)) \<rparr> \<rparr>],
       attendance = [] \<rparr> scan =
     (\<lparr> sessions = [''SESSION_1'' \<mapsto> lecture\<lparr> location := classroom\<lparr> radiusMeters := Some (Fin (- 10)) \<rparr> \<rparr>],
        attendance = [] \<rparr>, OutOfRange (Fin 0) (Fin (- 10)))"
  by (simp add: markAttendance_def scan_def locationCheck_def verifyLocation_def
      allowedRadius_def debug_throws_def lecture_def classroom_def desk_def
      haversine_same_point Let_def)

subsection \<open>The boundary of the geofence\<close>

text \<open>
  Claim C6. \<open>verifyLocation\<close> reports the computed distance and admits exactly when
  that distance is at most the radius: a distance equal to the radius is admitted, a
  distance of the radius plus one is not.
\<close>

theorem geofence_inclusive:
  "valid (verifyLocation lat1 lon1 lat2 lon2 m) = num_le (calculateDistance lat1 lon1 lat2 lon2) m \<and>
   distance (verifyLocation lat1 lon1 lat2 lon2 m) = calculateDistance lat1 lon1 lat2 lon2 \<and>
   (calculateDistance lat1 lon1 lat2 lon2 = Fin r \<longrightarrow>
      valid (verifyLocation lat1 lon1 lat2 lon2 (Fin r))) \<and>
   (calculateDistance lat1 lon1 lat2 lon2 = Fin (r + 1) \<longrightarrow>
      \<not> valid (verifyLocation lat1 lon1 lat2 lon2 (Fin r)))"
  by (simp add: verifyLocation_def Let_def)

theorem geofence_inclusive_witness:
  "calculateDistance (Fin 0) (Fin 180) (Fin 0) (Fin 0) = Fin (of_int (round (6371000 * pi))) \<and>
   valid (verifyLocation (Fin 0) (Fin 180) (Fin 0) (Fin 0) (Fin (of_int (round (6371000 * pi))))) \<and>
   \<not> valid (verifyLocation (Fin 0) (Fin 180) (Fin 0) (Fin 0) (Fin (of_int (round (6371000 * pi)) - 1)))"
  using geofence_inclusive [where ?lat1.0 = "Fin 0" and ?lon1.0 = "Fin 180" and ?lat2.0 = "Fin 0"
      and ?lon2.0 = "Fin 0" and r = "of_int (round (6371000 * pi))"]
    geofence_inclusive [where ?lat1.0 = "Fin 0" and ?lon1.0 = "Fin 180" and ?lat2.0 = "Fin 0"
      and ?lon2.0 = "Fin 0" and r = "of_int (round (6371000 * pi)) - 1"]
  by (simp add: haversine_antipode)

subsection \<open>Coordinates outside their ranges\<close>

text \<open>
  Claim C7, as amended. The handler answers \<open>MissingFields\<close> exactly when the session
  id, the student id or the location is missing; it does not look at the values of
  the coordinates. A scan that carries the three fields and names a stored session
  that has not expired goes to the geofence check with the coordinates as they were
  sent, whatever they are, and its response is the one that follows from the distance
  computed from them: out of range, already marked or admitted, or a server error
  when the answer for out of range cannot be printed or the record cannot be written.
\<close>

theorem coordinates_not_validated:
  "((snd (markAttendance now st body) = MissingFields) =
      (\<not> truthy (m_sessionId body) \<or> \<not> truthy (m_studentId body) \<or> m_location body = None)) \<and>
   (m_sessionId body = Some sid \<and> sid \<noteq> [] \<and> m_studentId body = Some uid \<and> uid \<noteq> [] \<and>
    m_location body = Some loc \<and> sessions st sid = Some s \<and>
    \<not> date_gt now (Date (expiresAt s)) \<longrightarrow>
      snd (markAttendance now st body) =
        (let chk = verifyLocation (ToNumber (latitude loc)) (ToNumber (longitude loc))
                     (ToNumber (latitude (location s))) (ToNumber (longitude (location s)))
                     (allowedRadius s)
         in if \<not> valid chk
            then (if has_toFixed (latitude loc) \<and> has_toFixed (longitude loc) \<and>
                     has_toFixed (latitude (location s)) \<and> has_toFixed (longitude (location s))
                  then OutOfRange (distance chk) (maxDistance chk) else ServerError)
            else if existingAttendance st sid uid \<noteq> [] then AlreadyMarked
            else if m_studentEmail body = None \<or> \<not> storable (latitude loc) \<or>
                    \<not> storable (longitude loc)
            then ServerError
            else Admitted (courseName s) (distance chk)))"
  by (auto simp: markAttendance_def locationCheck_def debug_throws_def add_throws_def
      attendanceData_def Let_def split: option.splits)

theorem coordinates_not_validated_witness:
  "snd (markAttendance 500 equator_store (scan_from (Fin 180) (Fin 0))) =
     OutOfRange (Fin (of_int (round (6371000 * pi)))) (Fin 50)"
proof -
  have "snd (markAttendance 500 equator_store (scan_from (Fin 180) (Fin 0))) =
     (let chk = verifyLocation (ToNumber (latitude \<lparr> latitude = Num (Fin 180), longitude = Num (Fin 0) \<rparr>))
                  (ToNumber (longitude \<lparr> latitude = Num (Fin 180), longitude = Num (Fin 0) \<rparr>))
                  (ToNumber (latitude (location equator_room)))
                  (ToNumber (longitude (location equator_room)))
                  (allowedRadius equator_room)
      in if \<not> valid chk
         then (if has_toFixed (latitude \<lparr> latitude = Num (Fin 180), longitude = Num (Fin 0) \<rparr>) \<and>
                  has_toFixed (longitude \<lparr> latitude = Num (Fin 180), longitude = Num (Fin 0) \<rparr>) \<and>
                  has_toFixed (latitude (location equator_room)) \<and>
                  has_toFixed (longitude (location equator_room))
               then OutOfRange (distance chk) (maxDistance chk) else ServerError)
         else if existingAttendance equator_store ''SESSION_2'' ''student1'' \<noteq> [] then AlreadyMarked
         else if m_studentEmail (scan_from (Fin 180) (Fin 0)) = None \<or>
                 \<not> storable (latitude \<lparr> latitude = Num (Fin 180), longitude = Num (Fin 0) \<rparr>) \<or>
                 \<not> storable (longitude \<lparr> latitude = Num (Fin 180), longitude = Num (Fin 0) \<rparr>)
         then ServerError
         else Admitted (courseName equator_room) (distance chk))"
    using coordinates_not_validated [where now = 500 and st = equator_store
        and body = "scan_from (Fin 180) (Fin 0)" and sid = "''SESSION_2''" and uid = "''student1''"
        and loc = "\<lparr> latitude = Num (Fin 180), longitude = Num (Fin 0) \<rparr>" and s = equator_room]
    by (simp add: scan_from_def equator_store_def equator_room_def)
  then show ?thesis
    using half_circumference
    by (simp add: verifyLocation_def allowedRadius_def equator_room_def haversine_over_pole
        Let_def)
qed

text \<open>
  Claim C7 as it was stated fails. A scan with longitude 360 is not rejected as
  malformed: the distance to the room at longitude 0 is computed as 0 and the student
  is admitted. A scan with an infinite longitude is not rejected as malformed either:
  the distance computed from it is \<open>NaN\<close>, and the scan is answered as out of range
  with that distance.
\<close>

theorem malformed_coordinates_reach_geofence:
  "m_studentEmail (scan_from (Fin 0) (Fin 360)) = Some ''s@example.org'' \<and>
   markAttendance 500 equator_store (scan_from (Fin 0) (Fin 360)) =
     (equator_store\<lparr> attendance :=
        [\<lparr> a_sessionId = ''SESSION_2'', a_studentId = ''student1'',
           a_studentEmail = Some ''s@example.org'', a_courseName = ''Physics'', markedAt = 500,
           a_distance = Fin 0,
           a_location = \<lparr> latitude = Num (Fin 0), longitude = Num (Fin 360) \<rparr> \<rparr>] \<rparr>,
      Admitted ''Physics'' (Fin 0)) \<and>
   markAttendance 500 equator_store (scan_from (Fin 0) PosInf) =
     (equator_store, OutOfRange NaN (Fin 50))"
  by (simp add: markAttendance_def scan_from_def equator_store_def equator_room_def
      locationCheck_def verifyLocation_def allowedRadius_def existingAttendance_def
      debug_throws_def add_throws_def attendanceData_def haversine_full_turn Let_def)

subsection \<open>Two scans in flight at the same time\<close>

text \<open>
  Claim C2 fails on the handler. Two scans of the same session by the same student
  are in flight together; each is answered the query for existing attendance before
  the other has written. Both find the ledger empty for the pair, both write, and
  both are answered \<open>Admitted\<close>: the ledger holds two records for the pair.
\<close>

theorem concurrent_scans_both_admitted:
  "run_schedule 500 [0, 1, 0, 1, 0, 1] (open_store, [Received scan, Received scan]) =
     (open_store\<lparr> attendance := [scan_record, scan_record] \<rparr>,
      [Responded (Admitted ''Maths'' (Fin 0)), Responded (Admitted ''Maths'' (Fin 0))]) \<and>
   \<not> distinct (admitted_pairs (open_store\<lparr> attendance := [scan_record, scan_record] \<rparr>))"
proof -
  have "m_sessionId scan = Some ''SESSION_1''" "m_studentId scan = Some ''student1''"
    "m_location scan = Some desk"
    by (simp_all add: scan_def)
  moreover have "expiresAt lecture = ExpDate 1000" "courseName lecture = ''Maths''"
    by (simp_all add: lecture_def)
  moreover have "a_courseName scan_record = ''Maths''" "a_distance scan_record = Fin 0"
    by (simp_all add: scan_record_def)
  ultimately show ?thesis
    by (simp add: open_store_def lecture_check existingAttendance_def scan_data
        scan_record_storable admitted_pairs_def)
qed

end
